theory Spec2Isabelle
  imports Complex_Main "HOL-Library.Sublist"
begin

section \<open>JavaScript strings\<close>

text \<open>
  A JavaScript string is a sequence of UTF-16 code units; a code unit is modelled as an
  integer. \<open>js\<close> turns an ASCII literal into such a sequence.
\<close>

type_synonym jsstring = "int list"

definition js :: "string \<Rightarrow> jsstring" where
  "js s = map of_char s"

text \<open>
  \<open>String.prototype.trim\<close> removes the code units of the ECMAScript productions WhiteSpace
  and LineTerminator from both ends: TAB, LF, VT, FF, CR, SP, NBSP, U+1680, U+2000 to U+200A,
  U+2028, U+2029, U+202F, U+205F, U+3000 and U+FEFF.
\<close>

definition is_ws :: "int \<Rightarrow> bool" where
  "is_ws c = (c = 9 \<or> c = 10 \<or> c = 11 \<or> c = 12 \<or> c = 13 \<or> c = 32 \<or> c = 160 \<or> c = 5760
     \<or> (8192 \<le> c \<and> c \<le> 8202) \<or> c = 8232 \<or> c = 8233 \<or> c = 8239 \<or> c = 8287
     \<or> c = 12288 \<or> c = 65279)"

definition trim :: "jsstring \<Rightarrow> jsstring" where
  "trim s = rev (dropWhile is_ws (rev (dropWhile is_ws s)))"

text \<open>
  \<open>s.replace(/pat/g, '')\<close> for a pattern that is a literal text: the string is scanned from
  the left; where the pattern matches, it is skipped and the scan goes on behind it, otherwise
  one code unit is copied. The output is not scanned again.
\<close>

function replace_all :: "'a list \<Rightarrow> 'a list \<Rightarrow> 'a list" where
  "replace_all pat [] = []"
| "replace_all pat (x # xs) =
     (if pat \<noteq> [] \<and> prefix pat (x # xs)
      then replace_all pat (drop (length pat) (x # xs))
      else x # replace_all pat xs)"
  by pat_completeness auto
termination
  by (relation "measure (\<lambda>(pat, s). length s)") (auto simp: neq_Nil_conv)

definition BLANK_AUDIO :: jsstring where
  "BLANK_AUDIO = js ''[BLANK_AUDIO]''"

text \<open>\<open>e.data.output.replace(/\[BLANK_AUDIO\]/g, '').trim()\<close>, App.jsx lines 115 and 130.\<close>

definition cleanedOutput :: "jsstring \<Rightarrow> jsstring" where
  "cleanedOutput out = trim (replace_all BLANK_AUDIO out)"


section \<open>The application component (App.jsx)\<close>

text \<open>
  The state of the component: the values held by \<open>useState\<close> and the recording kept in
  \<open>fullRecordingRef\<close>. \<open>status\<close> is \<open>null\<close>, \<open>"loading"\<close> or \<open>"ready"\<close>. The stream, the
  audio context, the timers of the elapsed-time display and the debounced copy of \<open>tps\<close>
  take no part in the transcript and are left out; so are the calls that only reach the
  recorder or the text area (\<open>requestData\<close>, \<open>focus\<close>) and the console output.
\<close>

datatype status = StatusLoading | StatusReady

datatype jsval = Str jsstring | Num int

type_synonym obj = "string \<rightharpoonup> jsval"

type_synonym blob = "nat list"

record app =
  status :: "status option"
  loadingMessage :: jsstring
  progressItems :: "obj list"
  realtimeText :: jsstring
  finalTranscript :: jsstring
  tps :: "real option"
  recording :: bool
  isProcessing :: bool
  chunks :: "blob list"
  fullRecording :: "blob list"
  allowRealtimeProcessing :: bool
  processingFinalTranscript :: bool

definition initial_app :: app where
  "initial_app = \<lparr> status = None, loadingMessage = [], progressItems = [],
     realtimeText = [], finalTranscript = [], tps = None, recording = False,
     isProcessing = False, chunks = [], fullRecording = [],
     allowRealtimeProcessing = True, processingFinalTranscript = False \<rparr>"

text \<open>
  The messages the worker posts, by their \<open>status\<close> field. \<open>Error\<close> is the message of
  \<open>load\<close>'s catch block; \<open>Other\<close> is any further status the model library reports through
  the progress callback.
\<close>

datatype message =
    Loading jsstring
  | Initiate obj
  | Progress obj
  | Done obj
  | Ready
  | Start
  | Update jsstring "real option" nat
  | Complete jsstring bool
  | Error jsstring
  | Other jsstring

text \<open>\<open>onMessageReceived\<close>, App.jsx lines 52 to 135: one equation per \<open>case\<close> of the switch.
  The switch has no case for \<open>"error"\<close> and no default.\<close>

fun onMessageReceived :: "message \<Rightarrow> app \<Rightarrow> app" where
  "onMessageReceived (Loading d) s = s\<lparr>status := Some StatusLoading, loadingMessage := d\<rparr>"
| "onMessageReceived (Initiate d) s = s\<lparr>progressItems := progressItems s @ [d]\<rparr>"
| "onMessageReceived (Progress d) s =
     s\<lparr>progressItems :=
         map (\<lambda>item. if item ''file'' = d ''file'' then item ++ d else item) (progressItems s)\<rparr>"
| "onMessageReceived (Done d) s =
     s\<lparr>progressItems := filter (\<lambda>item. item ''file'' \<noteq> d ''file'') (progressItems s)\<rparr>"
| "onMessageReceived Ready s = s\<lparr>status := Some StatusReady\<rparr>"
| "onMessageReceived Start s = s\<lparr>isProcessing := True\<rparr>"
| "onMessageReceived (Update out t n) s = s\<lparr>tps := t\<rparr>"
| "onMessageReceived (Complete out fin) s =
     (let s1 = s\<lparr>isProcessing := False\<rparr> in
      if fin then
        (let s2 = s1\<lparr>processingFinalTranscript := False\<rparr>;
             cleaned = cleanedOutput out;
             s3 = (if cleaned \<noteq> []
                   then s2\<lparr>finalTranscript :=
                          finalTranscript s2 @ (if finalTranscript s2 \<noteq> [] then js '' '' else [])
                            @ cleaned\<rparr>
                   else s2)
         in s3\<lparr>realtimeText := []\<rparr>)
      else s1\<lparr>realtimeText := cleanedOutput out\<rparr>)"
| "onMessageReceived (Error d) s = s"
| "onMessageReceived (Other st) s = s"

text \<open>The messages of the worker are handled one after the other, in the order posted.\<close>

definition deliver :: "message list \<Rightarrow> app \<Rightarrow> app" where
  "deliver ms s = foldl (\<lambda>a m. onMessageReceived m a) s ms"

text \<open>The click on "Load Model" (App.jsx lines 363 to 366) posts \<open>{type: "load"}\<close>.\<close>

definition load_click :: "app \<Rightarrow> app" where
  "load_click s = s\<lparr>status := Some StatusLoading\<rparr>"

text \<open>The handlers of the recorder, App.jsx lines 160 to 225.\<close>

definition onstart :: "app \<Rightarrow> app" where
  "onstart s = s\<lparr>recording := True, allowRealtimeProcessing := True, chunks := [],
     fullRecording := [], realtimeText := []\<rparr>"

definition ondataavailable :: "blob \<Rightarrow> app \<Rightarrow> app" where
  "ondataavailable b s =
     (if length b > 0 then s\<lparr>chunks := chunks s @ [b], fullRecording := fullRecording s @ [b]\<rparr>
      else s)"

definition onstop :: "app \<Rightarrow> app" where
  "onstop s =
     (let s1 = s\<lparr>recording := False, allowRealtimeProcessing := False, realtimeText := []\<rparr>
      in if length (fullRecording s1) > 0 then s1\<lparr>processingFinalTranscript := True\<rparr> else s1)"

text \<open>
  The request posted to the worker: \<open>{audio, language, isFinal}\<close>. The samples are the
  elements of a \<open>Float32Array\<close>; their type is left open.
\<close>

record 'a request =
  audio :: "'a list"
  language :: jsstring
  isFinal :: bool

definition WHISPER_SAMPLING_RATE :: int where
  "WHISPER_SAMPLING_RATE = 16000"

definition MAX_AUDIO_LENGTH :: int where
  "MAX_AUDIO_LENGTH = 30"

definition MAX_SAMPLES :: int where
  "MAX_SAMPLES = WHISPER_SAMPLING_RATE * MAX_AUDIO_LENGTH"

text \<open>
  \<open>TypedArray.prototype.slice(start)\<close> with the end left out: a negative start counts from
  the end and is clamped at the first element, a start beyond the end gives the empty array.
\<close>

definition slice_from :: "int \<Rightarrow> 'a list \<Rightarrow> 'a list" where
  "slice_from start xs =
     (let len = int (length xs);
          k = (if start < 0 then max (len + start) 0 else min start len)
      in drop (nat k) xs)"

text \<open>App.jsx lines 255 to 259: the samples of a real-time request.\<close>

definition realtime_audio :: "'a list \<Rightarrow> 'a list" where
  "realtime_audio decoded =
     (if int (length decoded) > MAX_SAMPLES then slice_from (- MAX_SAMPLES) decoded
      else decoded)"

text \<open>
  The effect of App.jsx lines 238 to 270 runs when its guards pass and chunks are present; the
  decoded chunks are then posted as a request that is not final (lines 261 to 264). \<open>onstop\<close>
  posts the whole decoded recording as the final request (lines 212 to 215) when it holds a
  chunk.
\<close>

definition realtime_due :: "app \<Rightarrow> bool" where
  "realtime_due s =
     (recording s \<and> allowRealtimeProcessing s \<and> \<not> isProcessing s \<and> status s = Some StatusReady
      \<and> length (chunks s) > 0)"

definition realtime_request :: "'a list \<Rightarrow> 'a request" where
  "realtime_request decoded =
     \<lparr> audio = realtime_audio decoded, language = js ''en'', isFinal = False \<rparr>"

definition final_due :: "app \<Rightarrow> bool" where
  "final_due s = (length (fullRecording s) > 0)"

definition final_request :: "'a list \<Rightarrow> 'a request" where
  "final_request decoded = \<lparr> audio = decoded, language = js ''en'', isFinal = True \<rparr>"


section \<open>The worker (worker.js)\<close>

subsection \<open>The gate of \<open>generate\<close>\<close>

text \<open>
  The worker runs one callback at a time; a call of the asynchronous \<open>generate\<close> runs until
  its next \<open>await\<close> and goes on when the awaited promise settles. The state is the flag
  \<open>processing\<close> together with the calls that are suspended: \<open>waiting\<close> holds the calls inside
  the loop of lines 54 to 56, \<open>running\<close> the calls that have passed line 59 and await the
  model. What the environment decides is an event:
  \<^item> \<open>Generate r\<close>: a message \<open>{type: "generate", data: r}\<close> arrives (lines 164, 165);
  \<^item> \<open>Timeout n\<close>: the 50 ms timer of the \<open>n\<close>-th waiting call fires (line 55);
  \<^item> \<open>Token n out t k\<close>: the streamer of the \<open>n\<close>-th running call reports text (lines 80 to 87);
  \<^item> \<open>Resolved n text\<close>: the awaited work of the \<open>n\<close>-th running call (lines 67 to 107) ends
    with the decoded text;
  \<^item> \<open>Rejected n\<close>: the work on the audio of the \<open>n\<close>-th running call (lines 96 to 107)
    throws;
  \<^item> \<open>InstanceRejected n\<close>: the promise of \<open>getInstance\<close> that the \<open>n\<close>-th running call
    awaits (lines 67, 68) is rejected.
  A step returns the messages posted to the main thread and the next state.
\<close>

record 'a worker =
  processing :: bool
  waiting :: "'a request list"
  running :: "'a request list"

definition initial_worker :: "'a worker" where
  "initial_worker = \<lparr> processing = False, waiting = [], running = [] \<rparr>"

datatype 'a event =
    Generate "'a request"
  | Timeout nat
  | Token nat jsstring "real option" nat
  | Resolved nat jsstring
  | Rejected nat
  | InstanceRejected nat

definition remove_nth :: "nat \<Rightarrow> 'b list \<Rightarrow> 'b list" where
  "remove_nth n xs = take n xs @ drop (Suc n) xs"

text \<open>Lines 59 to 64: the flag is set and \<open>{status: "start"}\<close> is posted.\<close>

definition admit :: "'a request \<Rightarrow> 'a worker \<Rightarrow> message list \<times> 'a worker" where
  "admit r w = ([Start], w\<lparr>processing := True, running := running w @ [r]\<rparr>)"

text \<open>Lines 45 to 59, from the call to the first \<open>await\<close>.\<close>

definition arrive :: "'a request \<Rightarrow> 'a worker \<Rightarrow> message list \<times> 'a worker" where
  "arrive r w =
     (if processing w \<and> \<not> isFinal r then ([], w)
      else if processing w \<and> isFinal r then ([], w\<lparr>waiting := waiting w @ [r]\<rparr>)
      else admit r w)"

text \<open>Lines 54 to 59, one turn of the loop after its timer has fired.\<close>

definition wake :: "nat \<Rightarrow> 'a worker \<Rightarrow> message list \<times> 'a worker" where
  "wake n w =
     (if n < length (waiting w)
      then (if processing w then ([], w)
            else admit (waiting w ! n) (w\<lparr>waiting := remove_nth n (waiting w)\<rparr>))
      else ([], w))"

text \<open>
  \<open>generate\<close> of worker.js. No \<open>await\<close> stands in a \<open>try\<close>: when the awaited work throws
  or the awaited promise is rejected, the call ends there, lines 109 to 116 do not run,
  nothing is posted and \<open>processing\<close> keeps its value.
\<close>

fun generate :: "'a event \<Rightarrow> 'a worker \<Rightarrow> message list \<times> 'a worker" where
  "generate (Generate r) w = arrive r w"
| "generate (Timeout n) w = wake n w"
| "generate (Token n out t k) w =
     (if n < length (running w) then ([Update out t k], w) else ([], w))"
| "generate (Resolved n text) w =
     (if n < length (running w)
      then ([Complete text (isFinal (running w ! n))],
            w\<lparr>processing := False, running := remove_nth n (running w)\<rparr>)
      else ([], w))"
| "generate (Rejected n) w =
     (if n < length (running w) then ([], w\<lparr>running := remove_nth n (running w)\<rparr>)
      else ([], w))"
| "generate (InstanceRejected n) w =
     (if n < length (running w) then ([], w\<lparr>running := remove_nth n (running w)\<rparr>)
      else ([], w))"

text \<open>
  \<open>generate\<close> of the worker built on \<open>pipeline\<close> (the second worker of the repository): the
  same gate; the streaming callback is passed for real-time requests only. The call of the
  transcriber stands in a \<open>try\<close> (lines 72 to 112) whose \<open>catch\<close> posts an empty completion
  before the flag is cleared on line 114: this is \<open>Rejected\<close>. The \<open>await\<close> of \<open>getInstance\<close>
  on line 51 stands before the \<open>try\<close>: when that promise is rejected the call ends there,
  nothing is posted and the flag keeps its value.
\<close>

fun generate_pipeline :: "'a event \<Rightarrow> 'a worker \<Rightarrow> message list \<times> 'a worker" where
  "generate_pipeline (Generate r) w = arrive r w"
| "generate_pipeline (Timeout n) w = wake n w"
| "generate_pipeline (Token n out t k) w =
     (if n < length (running w) \<and> \<not> isFinal (running w ! n) then ([Update out t k], w)
      else ([], w))"
| "generate_pipeline (Resolved n text) w =
     (if n < length (running w)
      then ([Complete text (isFinal (running w ! n))],
            w\<lparr>processing := False, running := remove_nth n (running w)\<rparr>)
      else ([], w))"
| "generate_pipeline (Rejected n) w =
     (if n < length (running w)
      then ([Complete [] (isFinal (running w ! n))],
            w\<lparr>processing := False, running := remove_nth n (running w)\<rparr>)
      else ([], w))"
| "generate_pipeline (InstanceRejected n) w =
     (if n < length (running w) then ([], w\<lparr>running := remove_nth n (running w)\<rparr>)
      else ([], w))"

text \<open>A run of the worker: the events in order, the posted messages collected.\<close>

definition execute ::
  "('e \<Rightarrow> 'w \<Rightarrow> message list \<times> 'w) \<Rightarrow> 'e list \<Rightarrow> 'w \<Rightarrow> message list \<times> 'w" where
  "execute step es w =
     foldl (\<lambda>(ms, v) e. (ms @ fst (step e v), snd (step e v))) ([], w) es"


text \<open>
  The two properties of the gate that hold along every run: at most one call is past the
  gate, and the flag is set while one is; only final requests wait.
\<close>

definition single_flight :: "'a worker \<Rightarrow> bool" where
  "single_flight w = (length (running w) \<le> 1 \<and> (running w = [] \<or> processing w))"

definition waiting_final :: "'a worker \<Rightarrow> bool" where
  "waiting_final w = list_all isFinal (waiting w)"


subsection \<open>Loading the model\<close>

text \<open>
  \<open>AutomaticSpeechRecognitionPipeline.getInstance\<close> of worker.js, lines 20 to 41. Each static
  field holds the promise returned by \<open>from_pretrained\<close>, stored by \<open>??=\<close> before anything is
  awaited; the three assignments are the three steps of \<open>getInstance\<close>. A promise is named
  by the position of its call in the record of all calls of \<open>from_pretrained\<close>. The
  progress callback is handed on and does not touch the fields.
\<close>

datatype component = Tokenizer | Processor | Model

record pipeline =
  tokenizer :: "nat option"
  processor :: "nat option"
  model :: "nat option"
  from_pretrained_calls :: "component list"

definition initial_pipeline :: pipeline where
  "initial_pipeline =
     \<lparr> tokenizer = None, processor = None, model = None, from_pretrained_calls = [] \<rparr>"

definition tokenizer_assign :: "pipeline \<Rightarrow> pipeline" where
  "tokenizer_assign p =
     (if tokenizer p = None
      then p\<lparr>tokenizer := Some (length (from_pretrained_calls p)),
             from_pretrained_calls := from_pretrained_calls p @ [Tokenizer]\<rparr>
      else p)"

definition processor_assign :: "pipeline \<Rightarrow> pipeline" where
  "processor_assign p =
     (if processor p = None
      then p\<lparr>processor := Some (length (from_pretrained_calls p)),
             from_pretrained_calls := from_pretrained_calls p @ [Processor]\<rparr>
      else p)"

definition model_assign :: "pipeline \<Rightarrow> pipeline" where
  "model_assign p =
     (if model p = None
      then p\<lparr>model := Some (length (from_pretrained_calls p)),
             from_pretrained_calls := from_pretrained_calls p @ [Model]\<rparr>
      else p)"

definition getInstance :: "pipeline \<Rightarrow> (nat option \<times> nat option \<times> nat option) \<times> pipeline" where
  "getInstance p =
     (let q = model_assign (processor_assign (tokenizer_assign p))
      in ((tokenizer q, processor q, model q), q))"

text \<open>
  \<open>load\<close> of worker.js up to its first \<open>await\<close> (lines 119 to 133), and the message of its
  \<open>catch\<close> block (lines 146 to 152) for an error with the text \<open>m\<close>.
\<close>

definition load :: "pipeline \<Rightarrow> message list \<times> pipeline" where
  "load p = ([Loading (js ''Loading model...'')], snd (getInstance p))"

definition load_catch :: "jsstring \<Rightarrow> message list" where
  "load_catch m = [Error (js ''Failed to load model: '' @ m)]"

text \<open>
  \<open>AutomaticSpeechRecognitionPipelineInstance.getInstance\<close> of the worker built on
  \<open>pipeline\<close>: the field \<open>transcriber\<close> is assigned after \<open>await pipeline(...)\<close>, so the call
  has two parts. \<open>getInstance_call\<close> runs to the \<open>await\<close> and counts the calls of
  \<open>pipeline\<close>; \<open>getInstance_resume h\<close> stores the pipeline \<open>h\<close> once it is there.
\<close>

record pipeline_instance =
  transcriber :: "nat option"
  pipeline_calls :: nat

definition initial_pipeline_instance :: pipeline_instance where
  "initial_pipeline_instance = \<lparr> transcriber = None, pipeline_calls = 0 \<rparr>"

definition getInstance_call :: "pipeline_instance \<Rightarrow> pipeline_instance" where
  "getInstance_call q =
     (if transcriber q = None then q\<lparr>pipeline_calls := Suc (pipeline_calls q)\<rparr> else q)"

definition getInstance_resume :: "nat \<Rightarrow> pipeline_instance \<Rightarrow> pipeline_instance" where
  "getInstance_resume h q = q\<lparr>transcriber := Some h\<rparr>"

datatype load_event = LoadMessage | PipelineLoaded nat

fun load_pipeline :: "load_event \<Rightarrow> pipeline_instance \<Rightarrow> message list \<times> pipeline_instance" where
  "load_pipeline LoadMessage q = ([Loading (js ''Loading model...'')], getInstance_call q)"
| "load_pipeline (PipelineLoaded h) q =
     ([Loading (js ''Compiling shaders and warming up model...'')], getInstance_resume h q)"


section \<open>Properties of the string functions\<close>

text \<open>
  \<open>replace_all\<close> drops a marker at the front and leaves a text without the marker as it is.
  It makes one pass: a marker that only comes about by the removal of another stays. The
  result of \<open>trim\<close>, when not empty, neither starts nor ends with white space, and a text
  that neither starts nor ends with white space is left as it is.
\<close>

lemma replace_all_marker_first:
  "pat \<noteq> [] \<Longrightarrow> replace_all pat (pat @ s) = replace_all pat s"
  by (cases pat) simp_all

lemma replace_all_absent:
  "\<not> (\<exists>us vs. s = us @ pat @ vs) \<Longrightarrow> replace_all pat s = s"
proof (induction pat s rule: replace_all.induct)
  case (1 pat)
  show ?case by simp
next
  case (2 pat x xs)
  have np: "\<not> prefix pat (x # xs)"
  proof
    assume "prefix pat (x # xs)"
    then obtain vs where "x # xs = pat @ vs"
      by (auto simp: prefix_def)
    then have "x # xs = [] @ pat @ vs"
      by simp
    with "2.prems" show False
      by blast
  qed
  have "\<not> (\<exists>us vs. xs = us @ pat @ vs)"
  proof
    assume "\<exists>us vs. xs = us @ pat @ vs"
    then obtain us vs where "xs = us @ pat @ vs"
      by blast
    then have "x # xs = (x # us) @ pat @ vs"
      by simp
    with "2.prems" show False
      by blast
  qed
  with "2.IH"(2) np show ?case
    by simp
qed

lemma replace_all_single_pass:
  "replace_all BLANK_AUDIO (js ''[BLANK_[BLANK_AUDIO]AUDIO]'') = BLANK_AUDIO"
  by code_simp

lemma last_dropWhile: "dropWhile P ys \<noteq> [] \<Longrightarrow> last (dropWhile P ys) = last ys"
  by (induction ys) auto

lemma trim_ends:
  assumes "trim s \<noteq> []"
  shows "\<not> is_ws (hd (trim s))" and "\<not> is_ws (last (trim s))"
proof -
  let ?a = "dropWhile is_ws s"
  let ?b = "dropWhile is_ws (rev ?a)"
  have b: "?b \<noteq> []"
    using assms by (simp add: trim_def)
  have a: "?a \<noteq> []"
  proof
    assume "?a = []"
    with b show False
      by simp
  qed
  have "hd (trim s) = last ?b"
    using b by (simp add: trim_def hd_rev)
  also have "\<dots> = last (rev ?a)"
    using b by (rule last_dropWhile)
  also have "\<dots> = hd ?a"
    using a by (simp add: last_rev)
  finally show "\<not> is_ws (hd (trim s))"
    using a hd_dropWhile [of is_ws s] by simp
  have "last (trim s) = hd ?b"
    using b by (simp add: trim_def last_rev)
  then show "\<not> is_ws (last (trim s))"
    using b hd_dropWhile [of is_ws "rev ?a"] by simp
qed

lemma trim_unchanged:
  assumes "s \<noteq> []" and "\<not> is_ws (hd s)" and "\<not> is_ws (last s)"
  shows "trim s = s"
proof -
  from assms obtain x xs where s: "s = x # xs"
    by (cases s) auto
  with assms have 1: "dropWhile is_ws s = s"
    by simp
  from assms have "rev s \<noteq> []" "\<not> is_ws (hd (rev s))"
    by (simp_all add: hd_rev)
  then have 2: "dropWhile is_ws (rev s) = rev s"
    by (cases "rev s") auto
  show ?thesis
    by (simp add: trim_def 1 2)
qed


section \<open>Properties of the application component\<close>

lemma js_Nil_iff: "js s = [] \<longleftrightarrow> s = []"
  by (simp add: js_def)

text \<open>
  Claim C3. A completion of the final request with the text \<open>t\<close>: let \<open>t'\<close> be \<open>t\<close> with
  the markers \<open>[BLANK_AUDIO]\<close> removed and then trimmed. When \<open>t'\<close> is empty the committed
  transcript stays as it is; otherwise it becomes \<open>t'\<close> when it was empty, and the old
  transcript, one space and \<open>t'\<close> when it was not.
\<close>

theorem final_commit:
  "finalTranscript (onMessageReceived (Complete t True) s) =
     (if cleanedOutput t = [] then finalTranscript s
      else if finalTranscript s = [] then cleanedOutput t
      else finalTranscript s @ js '' '' @ cleanedOutput t)"
  by (simp add: Let_def)

text \<open>The three examples of the commit: a first text, a second text, a text that cleans
  to nothing.\<close>

theorem final_commit_witness:
  "finalTranscript (onMessageReceived (Complete (js ''  [BLANK_AUDIO] hello world  '') True)
      initial_app) = js ''hello world''
   \<and> finalTranscript (onMessageReceived (Complete (js ''world'') True)
      (initial_app\<lparr>finalTranscript := js ''hello''\<rparr>)) = js ''hello world''
   \<and> finalTranscript (onMessageReceived (Complete (js '' [BLANK_AUDIO]  '') True)
      (initial_app\<lparr>finalTranscript := js ''hello''\<rparr>)) = js ''hello''"
proof -
  have a: "cleanedOutput (js ''  [BLANK_AUDIO] hello world  '') = js ''hello world''"
    by code_simp
  have b: "cleanedOutput (js ''world'') = js ''world''"
    by code_simp
  have c: "cleanedOutput (js '' [BLANK_AUDIO]  '') = []"
    by code_simp
  have d: "js ''hello'' @ js '' '' @ js ''world'' = js ''hello world''"
    by code_simp
  have e: "finalTranscript initial_app = []"
    by (simp add: initial_app_def)
  have f: "finalTranscript (initial_app\<lparr>finalTranscript := js ''hello''\<rparr>) = js ''hello''"
    by simp
  have g: "js ''hello world'' \<noteq> []" "js ''world'' \<noteq> []" "js ''hello'' \<noteq> []"
    by (simp_all add: js_Nil_iff)
  show ?thesis
    using final_commit [of "js ''  [BLANK_AUDIO] hello world  ''" initial_app]
      final_commit [of "js ''world''" "initial_app\<lparr>finalTranscript := js ''hello''\<rparr>"]
      final_commit [of "js '' [BLANK_AUDIO]  ''" "initial_app\<lparr>finalTranscript := js ''hello''\<rparr>"]
    by (simp only: a b c d e f g if_True if_False simp_thms)
qed

text \<open>
  Claim C10. A completion of a real-time request with the text \<open>t\<close> sets the live
  transcript to \<open>t\<close> with the markers \<open>[BLANK_AUDIO]\<close> removed and then trimmed, the cleaning
  of the final commit.
\<close>

theorem realtime_complete_live:
  "realtimeText (onMessageReceived (Complete t False) s) = trim (replace_all BLANK_AUDIO t)"
  by (simp add: Let_def cleanedOutput_def)


theorem realtime_complete_live_witness:
  "realtimeText (onMessageReceived (Complete (js '' [BLANK_AUDIO] so far '') False)
      (initial_app\<lparr>realtimeText := js ''so''\<rparr>)) = js ''so far''"
proof -
  have "trim (replace_all BLANK_AUDIO (js '' [BLANK_AUDIO] so far '')) = js ''so far''"
    by code_simp
  then show ?thesis
    using realtime_complete_live
      [of "js '' [BLANK_AUDIO] so far ''" "initial_app\<lparr>realtimeText := js ''so''\<rparr>"]
    by simp
qed

lemma deliver_Nil: "deliver [] a = a"
  by (simp add: deliver_def)

text \<open>
  Claim C5 says that every partial text replaces the live transcript. The case \<open>"update"\<close>
  of \<open>onMessageReceived\<close> reads the field \<open>tps\<close> alone: the live transcript is the same
  after the message as before it, and two partial texts received while recording leave it
  empty.
\<close>

theorem update_keeps_live:
  "realtimeText (onMessageReceived (Update u t n) s) = realtimeText s
   \<and> realtimeText (deliver [Start, Update (js ''hel'') None 1, Update (js ''hello'') None 2]
        (ondataavailable [1] (onstart (onMessageReceived Ready (load_click initial_app))))) = []"
  by (simp add: deliver_def onstart_def ondataavailable_def load_click_def initial_app_def)

text \<open>
  Claim C8 says that an error event moves the component to an error state that shows the
  message. The switch of \<open>onMessageReceived\<close> has no case for the status \<open>"error"\<close> that
  \<open>load\<close> posts from its \<open>catch\<close> block: the state is left as it is, and after a failed load
  the status is still \<open>"loading"\<close>.
\<close>

theorem error_message_ignored:
  "onMessageReceived (Error m) s = s
   \<and> deliver (load_catch (js ''no adapter'')) (load_click initial_app) = load_click initial_app
   \<and> status (load_click initial_app) = Some StatusLoading"
  by (simp add: deliver_def load_catch_def load_click_def)

text \<open>
  Claim C6 says that the completion of a real-time request that arrives after the recording
  was stopped is dropped. Here the model is ready, a recording holds one chunk, a real-time
  request is in flight (\<open>Start\<close>), and the recording is stopped, which empties the live
  transcript; the completion of the request then fills it again.
\<close>

theorem stale_completion_counterexample:
  "realtimeText (onstop (onMessageReceived Start
       (ondataavailable [1] (onstart (onMessageReceived Ready (load_click initial_app)))))) = []
   \<and> realtimeText (onMessageReceived (Complete (js ''hello'') False)
       (onstop (onMessageReceived Start
         (ondataavailable [1] (onstart (onMessageReceived Ready (load_click initial_app)))))))
      = js ''hello''
   \<and> js ''hello'' \<noteq> []"
proof -
  have "cleanedOutput (js ''hello'') = js ''hello''"
    by code_simp
  then show ?thesis
    by (simp add: onstop_def Let_def js_Nil_iff)
qed

text \<open>
  Claim C6 as the code has it: no message carries the generation of its request, and the
  completion of a real-time request is handled after \<open>onstop\<close> as it is before. It leaves
  the committed transcript and the flag of the final processing alone and sets the live
  transcript to its cleaned text; the completion of the final request empties the live
  transcript again.
\<close>

theorem stale_completion:
  "finalTranscript (onMessageReceived (Complete t False) (onstop s)) = finalTranscript s
   \<and> realtimeText (onMessageReceived (Complete t False) (onstop s)) = cleanedOutput t
   \<and> processingFinalTranscript (onMessageReceived (Complete t False) (onstop s))
       = processingFinalTranscript (onstop s)
   \<and> realtimeText (onMessageReceived (Complete u True)
        (onMessageReceived (Complete t False) (onstop s))) = []"
  by (simp add: onstop_def Let_def)

lemma MAX_SAMPLES_value: "MAX_SAMPLES = 480000"
  by (simp add: MAX_SAMPLES_def WHISPER_SAMPLING_RATE_def MAX_AUDIO_LENGTH_def)

lemma realtime_audio_long:
  assumes "length d > 480000"
  shows "realtime_audio d = drop (length d - 480000) d"
proof -
  have "nat (max (int (length d) + - 480000) 0) = length d - 480000"
    using assms by simp
  then show ?thesis
    using assms by (simp add: realtime_audio_def slice_from_def MAX_SAMPLES_value Let_def)
qed

lemma realtime_audio_short:
  assumes "length d \<le> 480000"
  shows "realtime_audio d = d"
  using assms by (simp add: realtime_audio_def MAX_SAMPLES_value)

text \<open>
  Claim C7. \<open>MAX_SAMPLES\<close> is 480000. When the decoded audio has more samples, the
  real-time request carries its last 480000 samples, each equal to the sample at the same
  place from the end of the decoded audio; otherwise it carries the decoded audio as it is.
\<close>

theorem realtime_window:
  "MAX_SAMPLES = 480000
   \<and> (if length d > 480000
       then audio (realtime_request d) = drop (length d - 480000) d
            \<and> length (audio (realtime_request d)) = 480000
            \<and> (\<forall>i<480000. audio (realtime_request d) ! i = d ! (length d - 480000 + i))
       else audio (realtime_request d) = d)"
proof (cases "length d > 480000")
  case True
  then show ?thesis
    by (simp add: MAX_SAMPLES_value realtime_request_def realtime_audio_long)
next
  case False
  then show ?thesis
    by (simp add: MAX_SAMPLES_value realtime_request_def realtime_audio_short)
qed

theorem realtime_window_witness:
  "audio (realtime_request [0..<480003]) = [3..<480003]
   \<and> audio (realtime_request [0..<480003]) ! 0 = 3
   \<and> audio (realtime_request [5, 6, 7 :: int]) = [5, 6, 7]"
proof -
  have l: "length [0..<480003] > 480000"
    by simp
  have d: "drop (length [0..<480003] - 480000) [0..<480003] = [3..<480003]"
    by (simp del: upt_rec_numeral)
  have n: "[3..<480003] ! 0 = 3"
    by (simp del: upt_rec_numeral)
  have s: "\<not> length [5, 6, 7 :: int] > 480000"
    by simp
  show ?thesis
    using realtime_window [of "[0..<480003]"] realtime_window [of "[5, 6, 7 :: int]"]
    by (simp only: l d n s if_True if_False simp_thms)
qed



section \<open>Properties of the gate\<close>

lemma execute_Nil: "execute step [] w = ([], w)"
  by (simp add: execute_def)

lemma execute_snoc:
  "execute step (es @ [e]) w =
     (fst (execute step es w) @ fst (step e (snd (execute step es w))),
      snd (step e (snd (execute step es w))))"
  by (simp add: execute_def split_beta)

lemma length_remove_nth: "n < length xs \<Longrightarrow> length (remove_nth n xs) = length xs - 1"
  by (simp add: remove_nth_def)

lemma set_remove_nth: "set (remove_nth n xs) \<subseteq> set xs"
  unfolding remove_nth_def using set_take_subset [of n xs] set_drop_subset [of "Suc n" xs]
  by auto

lemma remove_nth_single: "length xs \<le> 1 \<Longrightarrow> n < length xs \<Longrightarrow> remove_nth n xs = []"
  by (cases xs) (auto simp: remove_nth_def)

lemma single_flight_arrive: "single_flight w \<Longrightarrow> single_flight (snd (arrive r w))"
  by (auto simp: single_flight_def arrive_def admit_def)

lemma single_flight_wake: "single_flight w \<Longrightarrow> single_flight (snd (wake n w))"
  by (auto simp: single_flight_def wake_def admit_def)

lemma single_flight_generate:
  assumes "single_flight w"
  shows "single_flight (snd (generate e w))"
proof (cases e)
  case (Generate r)
  with assms show ?thesis by (simp add: single_flight_arrive)
next
  case (Timeout n)
  with assms show ?thesis by (simp add: single_flight_wake)
next
  case (Token n u t k)
  with assms show ?thesis by simp
next
  case (Resolved n u)
  with assms show ?thesis
    by (auto simp: single_flight_def length_remove_nth remove_nth_single)
next
  case (Rejected n)
  with assms show ?thesis
    by (auto simp: single_flight_def length_remove_nth remove_nth_single)
next
  case (InstanceRejected n)
  with assms show ?thesis
    by (auto simp: single_flight_def length_remove_nth remove_nth_single)
qed

lemma waiting_final_generate:
  assumes "waiting_final w"
  shows "waiting_final (snd (generate e w))"
proof (cases e)
  case (Timeout n)
  have "list_all isFinal (remove_nth n (waiting w))"
    using assms set_remove_nth [of n "waiting w"] by (auto simp: list_all_iff waiting_final_def)
  with assms Timeout show ?thesis
    by (simp add: waiting_final_def wake_def admit_def)
qed (use assms in \<open>auto simp: waiting_final_def arrive_def admit_def\<close>)

lemma single_flight_execute: "single_flight (snd (execute generate es initial_worker))"
proof (induction es rule: rev_induct)
  case Nil
  show ?case by (simp add: execute_Nil single_flight_def initial_worker_def)
next
  case (snoc e es)
  then show ?case by (simp add: execute_snoc single_flight_generate)
qed

lemma waiting_final_execute: "waiting_final (snd (execute generate es initial_worker))"
proof (induction es rule: rev_induct)
  case Nil
  show ?case by (simp add: execute_Nil waiting_final_def initial_worker_def)
next
  case (snoc e es)
  then show ?case by (simp add: execute_snoc waiting_final_generate)
qed

text \<open>What a step may do to the list of waiting calls.\<close>

lemma waiting_generate:
  "waiting (snd (generate e w)) = waiting w
   \<or> (\<exists>r. e = Generate r \<and> processing w \<and> isFinal r
        \<and> snd (generate e w) = w\<lparr>waiting := waiting w @ [r]\<rparr>)
   \<or> (\<exists>n. e = Timeout n \<and> n < length (waiting w) \<and> \<not> processing w
        \<and> generate e w = admit (waiting w ! n) (w\<lparr>waiting := remove_nth n (waiting w)\<rparr>))"
  by (cases e) (auto simp: arrive_def wake_def admit_def)

lemma running_clear:
  "single_flight w \<Longrightarrow> \<not> processing w \<Longrightarrow> running w = []"
  by (auto simp: single_flight_def)

text \<open>
  What holds along every run of the worker, whatever the model calls do: at most one call of
  \<open>generate\<close> is past the gate, and the flag is set while one is. A real-time request that
  arrives while the flag is set is turned away with nothing changed; a final request that
  arrives then is put among the waiting calls; a request that arrives while the flag is
  clear is admitted and is the one call in flight. No step takes a call out of the waiting
  list other than the turn of its loop that finds the flag clear; that turn admits it and
  leaves the other waiting calls in their places. When the call in flight ends with a text,
  the flag is cleared, so the next turn of a waiting final call admits it.
\<close>

theorem single_flight_gate:
  assumes "w = snd (execute generate es initial_worker)"
  shows "length (running w) \<le> 1
    \<and> (running w = [] \<or> processing w)
    \<and> list_all isFinal (waiting w)
    \<and> (processing w \<and> \<not> isFinal r \<longrightarrow> generate (Generate r) w = ([], w))
    \<and> (processing w \<and> isFinal r \<longrightarrow>
          generate (Generate r) w = ([], w\<lparr>waiting := waiting w @ [r]\<rparr>))
    \<and> (\<not> processing w \<longrightarrow>
          generate (Generate r) w = ([Start], w\<lparr>processing := True, running := [r]\<rparr>))
    \<and> (waiting (snd (generate e w)) = waiting w
        \<or> (\<exists>q. e = Generate q \<and> processing w \<and> isFinal q
              \<and> waiting (snd (generate e w)) = waiting w @ [q])
        \<or> (\<exists>k. e = Timeout k \<and> k < length (waiting w) \<and> \<not> processing w
              \<and> waiting (snd (generate e w)) = take k (waiting w) @ drop (Suc k) (waiting w)
              \<and> running (snd (generate e w)) = [waiting w ! k]))
    \<and> (n < length (running w) \<longrightarrow>
          generate (Resolved n u) w =
            ([Complete u (isFinal (running w ! n))], w\<lparr>processing := False, running := []\<rparr>))
    \<and> (n < length (waiting w) \<and> \<not> processing w \<longrightarrow>
          generate (Timeout n) w =
            ([Start], w\<lparr>waiting := take n (waiting w) @ drop (Suc n) (waiting w), processing := True,
                         running := [waiting w ! n]\<rparr>))"
proof -
  have sf: "single_flight w"
    using assms by (simp add: single_flight_execute)
  have wf: "waiting_final w"
    using assms by (simp add: waiting_final_execute)
  have c1: "length (running w) \<le> 1" and c2: "running w = [] \<or> processing w"
    using sf by (simp_all add: single_flight_def)
  have c3: "list_all isFinal (waiting w)"
    using wf by (simp add: waiting_final_def)
  have c4: "processing w \<and> \<not> isFinal r \<longrightarrow> generate (Generate r) w = ([], w)"
    by (simp add: arrive_def)
  have c5: "processing w \<and> isFinal r \<longrightarrow>
      generate (Generate r) w = ([], w\<lparr>waiting := waiting w @ [r]\<rparr>)"
    by (simp add: arrive_def)
  have c6: "\<not> processing w \<longrightarrow>
      generate (Generate r) w = ([Start], w\<lparr>processing := True, running := [r]\<rparr>)"
    using running_clear [OF sf] by (simp add: arrive_def admit_def)
  have c7: "waiting (snd (generate e w)) = waiting w
        \<or> (\<exists>q. e = Generate q \<and> processing w \<and> isFinal q
              \<and> waiting (snd (generate e w)) = waiting w @ [q])
        \<or> (\<exists>k. e = Timeout k \<and> k < length (waiting w) \<and> \<not> processing w
              \<and> waiting (snd (generate e w)) = take k (waiting w) @ drop (Suc k) (waiting w)
              \<and> running (snd (generate e w)) = [waiting w ! k])"
    using waiting_generate [of e w] running_clear [OF sf]
    by (auto simp: admit_def remove_nth_def)
  have c8: "n < length (running w) \<longrightarrow>
      generate (Resolved n u) w =
        ([Complete u (isFinal (running w ! n))], w\<lparr>processing := False, running := []\<rparr>)"
    using c1 by (simp add: remove_nth_single)
  have c9: "n < length (waiting w) \<and> \<not> processing w \<longrightarrow>
      generate (Timeout n) w =
        ([Start], w\<lparr>waiting := take n (waiting w) @ drop (Suc n) (waiting w), processing := True,
                     running := [waiting w ! n]\<rparr>)"
    using running_clear [OF sf] by (simp add: wake_def admit_def remove_nth_def)
  from c1 c2 c3 c4 c5 c6 c7 c8 c9 show ?thesis
    by (intro conjI)
qed

theorem single_flight_gate_witness:
  "processing (snd (execute generate
       [Generate (realtime_request [1::int]), Generate (final_request [1, 2])] initial_worker))
   \<and> running (snd (execute generate
       [Generate (realtime_request [1::int]), Generate (final_request [1, 2])] initial_worker))
       = [realtime_request [1]]
   \<and> waiting (snd (execute generate
       [Generate (realtime_request [1::int]), Generate (final_request [1, 2])] initial_worker))
       = [final_request [1, 2]]
   \<and> fst (generate (Generate (realtime_request [3]))
       (snd (execute generate
         [Generate (realtime_request [1::int]), Generate (final_request [1, 2])] initial_worker)))
       = []
   \<and> fst (generate (Resolved 0 (js ''hello''))
       (snd (execute generate
         [Generate (realtime_request [1::int]), Generate (final_request [1, 2])] initial_worker)))
       = [Complete (js ''hello'') False]
   \<and> generate (Timeout 0)
       (snd (execute generate
         [Generate (realtime_request [1::int]), Generate (final_request [1, 2]),
          Resolved 0 (js ''hello'')] initial_worker))
       = ([Start], \<lparr>processing = True, waiting = [], running = [final_request [1, 2]]\<rparr>)"
proof -
  let ?rt = "realtime_request [1::int]"
  let ?fin = "final_request [1::int, 2]"
  let ?w = "snd (execute generate [Generate ?rt, Generate ?fin] initial_worker)"
  let ?v = "snd (execute generate [Generate ?rt, Generate ?fin, Resolved 0 (js ''hello'')]
              initial_worker)"
  have rt: "\<not> isFinal ?rt" "\<not> isFinal (realtime_request [3::int])"
    by (simp_all add: realtime_request_def)
  have fin: "isFinal ?fin"
    by (simp add: final_request_def)
  have w: "?w = \<lparr>processing = True, waiting = [?fin], running = [?rt]\<rparr>"
    using rt fin by (simp add: execute_def arrive_def admit_def initial_worker_def)
  have v: "?v = \<lparr>processing = False, waiting = [?fin], running = []\<rparr>"
    using rt fin by (simp add: execute_def arrive_def admit_def initial_worker_def remove_nth_def)
  have g1: "generate (Generate (realtime_request [3])) ?w = ([], ?w)"
    using single_flight_gate [OF refl, of "[Generate ?rt, Generate ?fin]" "realtime_request [3]"]
      rt w by simp
  have g2: "generate (Resolved 0 (js ''hello'')) ?w
      = ([Complete (js ''hello'') (isFinal (running ?w ! 0))],
         ?w\<lparr>processing := False, running := []\<rparr>)"
    using single_flight_gate [OF refl, of "[Generate ?rt, Generate ?fin]" _ _ 0 "js ''hello''"]
      w by simp
  have g3: "generate (Timeout 0) ?v
      = ([Start], ?v\<lparr>waiting := take 0 (waiting ?v) @ drop (Suc 0) (waiting ?v),
                      processing := True,
                      running := [waiting ?v ! 0]\<rparr>)"
    using single_flight_gate
      [OF refl, of "[Generate ?rt, Generate ?fin, Resolved 0 (js ''hello'')]" _ _ 0]
      v by simp
  show ?thesis
    using g1 g2 g3 rt by (simp add: w v remove_nth_def)
qed

lemma execute_append:
  "execute step (as @ bs) w =
     (fst (execute step as w) @ fst (execute step bs (snd (execute step as w))),
      snd (execute step bs (snd (execute step as w))))"
proof (induction bs rule: rev_induct)
  case Nil
  show ?case by (simp add: execute_Nil)
next
  case (snoc b bs)
  have "execute step (as @ bs @ [b]) w = execute step ((as @ bs) @ [b]) w"
    by simp
  also have "\<dots> = (fst (execute step (as @ bs) w) @ fst (step b (snd (execute step (as @ bs) w))),
      snd (step b (snd (execute step (as @ bs) w))))"
    by (rule execute_snoc)
  finally show ?case
    by (simp add: snoc.IH execute_snoc)
qed

text \<open>A worker with the flag set and no call in flight stays so and posts nothing.\<close>

lemma stuck_generate:
  assumes "processing w" and "running w = []"
  shows "fst (generate e w) = []" and "processing (snd (generate e w))"
    and "running (snd (generate e w)) = []"
    and "prefix (waiting w) (waiting (snd (generate e w)))"
  using assms by (cases e; simp add: arrive_def wake_def)+

lemma stuck_execute:
  assumes "processing w" and "running w = []"
  shows "fst (execute generate es w) = [] \<and> processing (snd (execute generate es w))
    \<and> running (snd (execute generate es w)) = []
    \<and> prefix (waiting w) (waiting (snd (execute generate es w)))"
proof (induction es rule: rev_induct)
  case Nil
  show ?case using assms by (simp add: execute_Nil)
next
  case (snoc e es)
  let ?v = "snd (execute generate es w)"
  from snoc have p: "processing ?v" and r: "running ?v = []"
    and w: "prefix (waiting w) (waiting ?v)" and m: "fst (execute generate es w) = []"
    by simp_all
  from w stuck_generate(4) [OF p r, of e]
  have "prefix (waiting w) (waiting (snd (generate e ?v)))"
    by (rule prefix_order.trans)
  with m stuck_generate(1-3) [OF p r, of e] show ?case
    by (simp add: execute_snoc)
qed

lemma pipeline_final_admitted_after_throw:
  "execute generate_pipeline
     [Generate (realtime_request [1::int]), Generate (final_request [1, 2]), Rejected 0, Timeout 0]
     initial_worker
   = ([Start, Complete [] False, Start],
      \<lparr>processing = True, waiting = [], running = [final_request [1, 2]]\<rparr>)"
  by (simp add: execute_def arrive_def wake_def admit_def initial_worker_def remove_nth_def
      realtime_request_def final_request_def)

text \<open>
  Claim C1 says that a final request that arrives while the flag is set waits until the
  call in flight has ended, by success or by error, and is then admitted. In worker.js a
  real-time call is in flight, a final request arrives, and the model call of the call in
  flight throws. Whatever events follow, nothing is posted beyond the first \<open>Start\<close>, the
  flag stays set with no call in flight, and the final request stays first among the waiting
  calls: it is never admitted, since line 116, the only reset of the flag, is not reached.
\<close>

theorem final_polls_forever:
  "fst (execute generate
     ([Generate (realtime_request [1::int]), Generate (final_request [1, 2]), Rejected 0] @ es)
     initial_worker) = [Start]
   \<and> processing (snd (execute generate
     ([Generate (realtime_request [1::int]), Generate (final_request [1, 2]), Rejected 0] @ es)
     initial_worker))
   \<and> running (snd (execute generate
     ([Generate (realtime_request [1::int]), Generate (final_request [1, 2]), Rejected 0] @ es)
     initial_worker)) = []
   \<and> prefix [final_request [1, 2]] (waiting (snd (execute generate
     ([Generate (realtime_request [1::int]), Generate (final_request [1, 2]), Rejected 0] @ es)
     initial_worker)))"
proof -
  let ?pre = "[Generate (realtime_request [1::int]), Generate (final_request [1, 2]), Rejected 0]"
  let ?v = "\<lparr>processing = True, waiting = [final_request [1::int, 2]], running = []\<rparr>"
  have pre: "execute generate ?pre initial_worker = ([Start], ?v)"
    by (simp add: execute_def arrive_def admit_def initial_worker_def remove_nth_def
        realtime_request_def final_request_def)
  have app: "execute generate (?pre @ es) initial_worker
      = ([Start] @ fst (execute generate es ?v), snd (execute generate es ?v))"
    using execute_append [of generate ?pre es initial_worker]
    by (simp only: pre fst_conv snd_conv)
  have "processing ?v" and "running ?v = []"
    by simp_all
  from stuck_execute [OF this, of es]
  have s: "fst (execute generate es ?v) = []" "processing (snd (execute generate es ?v))"
    "running (snd (execute generate es ?v)) = []"
    "prefix [final_request [1, 2]] (waiting (snd (execute generate es ?v)))"
    by simp_all
  show ?thesis
    unfolding app by (simp add: s)
qed

text \<open>
  Claim C4. A real-time request that arrives while the flag is set posts no message and
  leaves the worker as it is; the application receives nothing, so the live transcript is
  the same after it as before.
\<close>

theorem busy_realtime_rejected:
  assumes "processing w" and "\<not> isFinal r"
  shows "fst (generate (Generate r) w) = [] \<and> snd (generate (Generate r) w) = w
    \<and> realtimeText (deliver (fst (generate (Generate r) w)) a) = realtimeText a"
  using assms by (simp add: arrive_def deliver_Nil)

theorem busy_realtime_rejected_witness:
  "generate (Generate (realtime_request [3::int]))
      \<lparr>processing = True, waiting = [], running = [realtime_request [1]]\<rparr>
     = ([], \<lparr>processing = True, waiting = [], running = [realtime_request [1]]\<rparr>)
   \<and> realtimeText (deliver (fst (generate (Generate (realtime_request [3::int]))
        \<lparr>processing = True, waiting = [], running = [realtime_request [1]]\<rparr>))
        (initial_app\<lparr>realtimeText := js ''so far''\<rparr>)) = js ''so far''"
proof -
  let ?w = "\<lparr>processing = True, waiting = [], running = [realtime_request [1::int]]\<rparr>"
  have p: "processing ?w"
    by simp
  have r: "\<not> isFinal (realtime_request [3::int])"
    by (simp add: realtime_request_def)
  show ?thesis
    using busy_realtime_rejected [OF p r, of "initial_app\<lparr>realtimeText := js ''so far''\<rparr>"]
    by (simp add: prod_eq_iff deliver_Nil del: generate.simps)
qed

text \<open>
  The end of a call in flight. In worker.js the flag is cleared on line 116 alone, which a
  call that throws does not reach. The worker built on \<open>pipeline\<close> clears it on both ways
  out of its \<open>try\<close>; a rejected \<open>getInstance\<close>, awaited before the \<open>try\<close>, leaves it set
  there as well.
\<close>

lemma generate_Rejected_processing:
  "processing (snd (generate (Rejected n) w)) = processing w"
  "processing (snd (generate (InstanceRejected n) w)) = processing w"
  by simp_all

lemma generate_pipeline_InstanceRejected:
  "fst (generate_pipeline (InstanceRejected n) w) = []"
  "processing (snd (generate_pipeline (InstanceRejected n) w)) = processing w"
  by simp_all

lemma generate_pipeline_settled:
  assumes "n < length (running w)"
  shows "\<not> processing (snd (generate_pipeline (Rejected n) w))"
    and "\<not> processing (snd (generate_pipeline (Resolved n u) w))"
    and "fst (generate_pipeline (Rejected n) w) = [Complete [] (isFinal (running w ! n))]"
  using assms by simp_all

text \<open>
  Claim C2 says that the flag is cleared when an admitted call ends, by success or by error.
  In worker.js a real-time call admitted by the clear gate whose model call throws posts
  \<open>Start\<close> and nothing more and leaves the flag set. The next real-time request is turned
  away, and a final request waits and stays waiting when its timer fires. The worker built on
  \<open>pipeline\<close>, whose model call stands in a \<open>try\<close>, posts an empty completion on the same
  run and ends with the flag clear.
\<close>

theorem rejected_call_keeps_flag:
  "execute generate [Generate (realtime_request [1::int]), Rejected 0] initial_worker
     = ([Start], \<lparr>processing = True, waiting = [], running = []\<rparr>)
   \<and> generate (Generate (realtime_request [2::int]))
        \<lparr>processing = True, waiting = [], running = []\<rparr>
     = ([], \<lparr>processing = True, waiting = [], running = []\<rparr>)
   \<and> execute generate [Generate (final_request [1::int, 2]), Timeout 0]
        \<lparr>processing = True, waiting = [], running = []\<rparr>
     = ([], \<lparr>processing = True, waiting = [final_request [1, 2]], running = []\<rparr>)
   \<and> execute generate_pipeline [Generate (realtime_request [1::int]), Rejected 0] initial_worker
     = ([Start, Complete [] False], \<lparr>processing = False, waiting = [], running = []\<rparr>)"
  by (simp add: execute_def arrive_def wake_def admit_def initial_worker_def remove_nth_def
      realtime_request_def final_request_def)


section \<open>Properties of loading\<close>

text \<open>
  In worker.js a call of \<open>getInstance\<close> leaves all three fields set, and a call that finds
  them set changes nothing: however many calls there are, \<open>from_pretrained\<close> is called once
  for each of the tokenizer, the processor and the model.
\<close>

lemma getInstance_fields:
  "tokenizer (snd (getInstance p)) \<noteq> None"
  "processor (snd (getInstance p)) \<noteq> None"
  "model (snd (getInstance p)) \<noteq> None"
  by (simp_all add: getInstance_def tokenizer_assign_def processor_assign_def model_assign_def)

lemma getInstance_loaded:
  assumes "tokenizer p \<noteq> None" and "processor p \<noteq> None" and "model p \<noteq> None"
  shows "snd (getInstance p) = p"
  using assms
  by (simp add: getInstance_def tokenizer_assign_def processor_assign_def model_assign_def)

lemma getInstance_again: "snd (getInstance (snd (getInstance p))) = snd (getInstance p)"
  by (rule getInstance_loaded) (rule getInstance_fields)+

lemma getInstance_once:
  "from_pretrained_calls (snd (getInstance initial_pipeline)) = [Tokenizer, Processor, Model]"
  by (simp add: getInstance_def tokenizer_assign_def processor_assign_def model_assign_def
      initial_pipeline_def)

text \<open>
  Claim C9 says that a second load command that arrives before the first load has ended
  starts no second load. In the worker built on \<open>pipeline\<close> the field \<open>transcriber\<close> is
  still empty then, and \<open>pipeline\<close> is called a second time; a second command that arrives
  after the pipeline is stored calls it no more. In worker.js two commands in a row call
  \<open>from_pretrained\<close> once for each part.
\<close>

theorem second_load_calls_pipeline_again:
  "pipeline_calls (snd (execute load_pipeline [LoadMessage, LoadMessage]
       initial_pipeline_instance)) = 2
   \<and> pipeline_calls (snd (execute load_pipeline [LoadMessage, PipelineLoaded 0, LoadMessage]
       initial_pipeline_instance)) = 1
   \<and> from_pretrained_calls (snd (load (snd (load initial_pipeline))))
       = [Tokenizer, Processor, Model]"
proof -
  have "pipeline_calls (snd (execute load_pipeline [LoadMessage, LoadMessage]
       initial_pipeline_instance)) = 2"
    by (simp add: execute_def getInstance_call_def initial_pipeline_instance_def)
  moreover have "pipeline_calls (snd (execute load_pipeline
       [LoadMessage, PipelineLoaded 0, LoadMessage] initial_pipeline_instance)) = 1"
    by (simp add: execute_def getInstance_call_def getInstance_resume_def
        initial_pipeline_instance_def)
  moreover have "from_pretrained_calls (snd (load (snd (load initial_pipeline))))
       = [Tokenizer, Processor, Model]"
    by (simp add: load_def getInstance_again getInstance_once)
  ultimately show ?thesis
    by simp
qed


section \<open>A session from start to stop\<close>

text \<open>
  Two real-time requests arrive, the second while the first is in flight; the recording is
  stopped and the final request arrives before the first has ended. The worker answers the
  first and the final request and nothing else; the application ends with an empty live
  transcript and the final text committed.
\<close>

lemma scenario_messages:
  "fst (execute generate
     [Generate (realtime_request [1::int]), Generate (realtime_request [1, 2]),
      Generate (final_request [1, 2, 3]), Resolved 0 (js '' so far''), Timeout 0,
      Resolved 0 (js '' all of it.'')] initial_worker)
   = [Start, Complete (js '' so far'') False, Start, Complete (js '' all of it.'') True]"
  by (simp add: execute_def arrive_def wake_def admit_def initial_worker_def remove_nth_def
      realtime_request_def final_request_def)

lemma scenario_transcript:
  "realtimeText (deliver [Complete (js '' so far'') False, Start, Complete (js '' all of it.'') True]
     (onstop (deliver [Start]
       (ondataavailable [1] (onstart (onMessageReceived Ready (load_click initial_app))))))) = []
   \<and> finalTranscript (deliver [Complete (js '' so far'') False, Start, Complete (js '' all of it.'') True]
     (onstop (deliver [Start]
       (ondataavailable [1] (onstart (onMessageReceived Ready (load_click initial_app)))))))
     = js ''all of it.''"
proof -
  have "cleanedOutput (js '' all of it.'') = js ''all of it.''"
    by code_simp
  then show ?thesis
    by (simp add: deliver_def onstop_def onstart_def ondataavailable_def load_click_def
        initial_app_def Let_def js_Nil_iff)
qed

text \<open>
  A recording stopped before any chunk has arrived posts no final request and leaves the
  committed transcript, the flag of the final processing and the status as they were. No
  real-time request is due once the recording is stopped, or while one is in flight.
\<close>

lemma stop_without_chunks:
  "\<not> final_due (onstop (onstart s))
   \<and> finalTranscript (onstop (onstart s)) = finalTranscript s
   \<and> processingFinalTranscript (onstop (onstart s)) = processingFinalTranscript s
   \<and> status (onstop (onstart s)) = status s"
  by (simp add: final_due_def onstop_def onstart_def)

lemma realtime_not_due:
  "\<not> realtime_due (onstop s)" and "\<not> realtime_due (onMessageReceived Start s)"
  by (simp_all add: realtime_due_def onstop_def Let_def)

end
